theory Spec2Isabelle
  imports Main "HOL-Library.Word"
begin

unbundle bit_operations_syntax

section \<open>The Win32 helper functions of M2Win32Helpers.cpp\<close>

text \<open>
  Every function of the file is a straight-line sequence of operating-system calls.
  The model threads an explicit state through each function: the state of the operating
  system (a type parameter, about which nothing is assumed) and the trace of the calls made
  so far. The operating system is a record of functions, one for each entry point the file
  uses; a theorem that holds for every such record holds whatever the system answers.
\<close>

subsection \<open>Platform types and constants\<close>

type_synonym DWORD = "32 word"
type_synonym UINT = "32 word"
type_synonym BOOL = "32 word"
type_synonym HRESULT = "32 word"
type_synonym ULONGLONG = "64 word"
type_synonym LARGE_INTEGER = "64 word"
type_synonym HANDLE = "64 word"
type_synonym wstring = "16 word list"

text \<open>
  \<open>HRESULT\<close> is a signed 32-bit value: \<open>SUCCEEDED\<close> and \<open>FAILED\<close> test its sign.
  A \<open>BOOL\<close> is an integer, false when zero. Handles and pointers are pointer-sized
  words (the 64-bit build); \<open>nullptr\<close> is 0 and \<open>INVALID_HANDLE_VALUE\<close> is -1.
  The numeric values below are those of the platform headers (winnt.h, winerror.h,
  fileapi.h, winbase.h).
\<close>

definition SUCCEEDED :: "HRESULT \<Rightarrow> bool" where
  "SUCCEEDED hr = (0 \<le> sint hr)"

definition FAILED :: "HRESULT \<Rightarrow> bool" where
  "FAILED hr = (sint hr < 0)"

definition S_OK :: HRESULT where "S_OK = 0"
definition E_INVALIDARG :: HRESULT where "E_INVALIDARG = 0x80070057"
definition E_UNEXPECTED :: HRESULT where "E_UNEXPECTED = 0x8000FFFF"
definition ERROR_SUCCESS :: DWORD where "ERROR_SUCCESS = 0"
definition FACILITY_WIN32 :: DWORD where "FACILITY_WIN32 = 7"

definition TRUE :: BOOL where "TRUE = 1"
definition nullptr :: "64 word" where "nullptr = 0"
definition INVALID_HANDLE_VALUE :: HANDLE where "INVALID_HANDLE_VALUE = - 1"
definition INVALID_FILE_ATTRIBUTES :: DWORD where "INVALID_FILE_ATTRIBUTES = - 1"

definition FILE_SHARE_READ :: DWORD where "FILE_SHARE_READ = 0x00000001"
definition FILE_SHARE_WRITE :: DWORD where "FILE_SHARE_WRITE = 0x00000002"
definition FILE_SHARE_DELETE :: DWORD where "FILE_SHARE_DELETE = 0x00000004"

definition FILE_ATTRIBUTE_READONLY :: DWORD where "FILE_ATTRIBUTE_READONLY = 0x00000001"
definition FILE_ATTRIBUTE_HIDDEN :: DWORD where "FILE_ATTRIBUTE_HIDDEN = 0x00000002"
definition FILE_ATTRIBUTE_SYSTEM :: DWORD where "FILE_ATTRIBUTE_SYSTEM = 0x00000004"
definition FILE_ATTRIBUTE_ARCHIVE :: DWORD where "FILE_ATTRIBUTE_ARCHIVE = 0x00000020"
definition FILE_ATTRIBUTE_NORMAL :: DWORD where "FILE_ATTRIBUTE_NORMAL = 0x00000080"
definition FILE_ATTRIBUTE_TEMPORARY :: DWORD where "FILE_ATTRIBUTE_TEMPORARY = 0x00000100"
definition FILE_ATTRIBUTE_OFFLINE :: DWORD where "FILE_ATTRIBUTE_OFFLINE = 0x00001000"
definition FILE_ATTRIBUTE_NOT_CONTENT_INDEXED :: DWORD where
  "FILE_ATTRIBUTE_NOT_CONTENT_INDEXED = 0x00002000"
definition FILE_ATTRIBUTE_NO_SCRUB_DATA :: DWORD where
  "FILE_ATTRIBUTE_NO_SCRUB_DATA = 0x00020000"

definition SYNCHRONIZE :: DWORD where "SYNCHRONIZE = 0x00100000"
definition DELETE :: DWORD where "DELETE = 0x00010000"
definition FILE_READ_ATTRIBUTES :: DWORD where "FILE_READ_ATTRIBUTES = 0x0080"
definition FILE_WRITE_ATTRIBUTES :: DWORD where "FILE_WRITE_ATTRIBUTES = 0x0100"
definition GENERIC_READ :: DWORD where "GENERIC_READ = 0x80000000"
definition OPEN_EXISTING :: DWORD where "OPEN_EXISTING = 3"
definition FILE_FLAG_BACKUP_SEMANTICS :: DWORD where "FILE_FLAG_BACKUP_SEMANTICS = 0x02000000"
definition FILE_FLAG_OPEN_REPARSE_POINT :: DWORD where
  "FILE_FLAG_OPEN_REPARSE_POINT = 0x00200000"

definition LANG_NEUTRAL :: "16 word" where "LANG_NEUTRAL = 0x00"
definition SUBLANG_NEUTRAL :: "16 word" where "SUBLANG_NEUTRAL = 0x00"

text \<open>\<open>MAKELANGID(p, s)\<close> of winnt.h: \<open>(s << 10) | p\<close>, a 16-bit value.\<close>

definition MAKELANGID :: "16 word \<Rightarrow> 16 word \<Rightarrow> 16 word" where
  "MAKELANGID p s = push_bit 10 s OR p"

text \<open>
  \<open>__HRESULT_FROM_WIN32(x)\<close> of winerror.h:
  \<open>(HRESULT)(x) <= 0 ? (HRESULT)(x) : (HRESULT)((x & 0x0000FFFF) | (FACILITY_WIN32 << 16) | 0x80000000)\<close>.
\<close>

definition HRESULT_FROM_WIN32 :: "DWORD \<Rightarrow> HRESULT" where
  "HRESULT_FROM_WIN32 x =
     (if sint x \<le> 0 then x
      else (x AND 0x0000FFFF) OR push_bit 16 FACILITY_WIN32 OR 0x80000000)"

record FILE_BASIC_INFO =
  CreationTime :: LARGE_INTEGER
  LastAccessTime :: LARGE_INTEGER
  LastWriteTime :: LARGE_INTEGER
  ChangeTime :: LARGE_INTEGER
  FileAttributes :: DWORD

record FILE_STANDARD_INFO =
  AllocationSize :: LARGE_INTEGER
  EndOfFile :: LARGE_INTEGER
  NumberOfLinks :: DWORD
  DeletePending :: bool
  Directory :: bool

record FILE_DISPOSITION_INFO =
  DeleteFile :: BOOL

record M2_RESOURCE_INFO =
  Size :: DWORD
  Pointer :: "64 word"

text \<open>
  A resource type or name is a wide string or, through \<open>MAKEINTRESOURCE\<close>, a 16-bit
  integer identifier.
\<close>

datatype resource_id = ResourceName wstring | ResourceId "16 word"

subsection \<open>The operating system\<close>

text \<open>
  One field for each system entry point the file calls, each a function of the system
  state \<open>'w\<close> that returns its result and the next state. The two information classes
  of \<open>GetFileInformationByHandleEx\<close> and of \<open>SetFileInformationByHandle\<close> that the file
  uses are separate fields, since their buffers have different types. At every call site
  of \<open>CreateFileW\<close> the security attributes and the template file are \<open>nullptr\<close>; they
  are left out. \<open>GetSystemWindowsDirectoryW\<close> receives the buffer (\<open>None\<close> for
  \<open>nullptr\<close>) and its size, and returns the length and the characters it wrote.

  \<open>M2GetLastError\<close> is declared in M2Win32Helpers.h, which is not part of the
  sources: it is taken as a parameter, a function that reads the system state (the
  calling thread's last-error code) and yields the result code.
\<close>

record 'w kernel =
  CreateFileW :: "wstring \<Rightarrow> DWORD \<Rightarrow> DWORD \<Rightarrow> DWORD \<Rightarrow> DWORD \<Rightarrow> 'w \<Rightarrow> HANDLE \<times> 'w"
  CloseHandle :: "HANDLE \<Rightarrow> 'w \<Rightarrow> BOOL \<times> 'w"
  GetFileBasicInfo :: "HANDLE \<Rightarrow> 'w \<Rightarrow> (BOOL \<times> FILE_BASIC_INFO) \<times> 'w"
  GetFileStandardInfo :: "HANDLE \<Rightarrow> 'w \<Rightarrow> (BOOL \<times> FILE_STANDARD_INFO) \<times> 'w"
  SetFileBasicInfo :: "HANDLE \<Rightarrow> FILE_BASIC_INFO \<Rightarrow> 'w \<Rightarrow> BOOL \<times> 'w"
  SetFileDispositionInfo :: "HANDLE \<Rightarrow> FILE_DISPOSITION_INFO \<Rightarrow> 'w \<Rightarrow> BOOL \<times> 'w"
  GetSystemWindowsDirectoryW :: "wstring option \<Rightarrow> UINT \<Rightarrow> 'w \<Rightarrow> (UINT \<times> wstring) \<times> 'w"
  FindResourceExW :: "64 word \<Rightarrow> resource_id \<Rightarrow> resource_id \<Rightarrow> 16 word \<Rightarrow> 'w \<Rightarrow> 64 word \<times> 'w"
  SizeofResource :: "64 word \<Rightarrow> 64 word \<Rightarrow> 'w \<Rightarrow> DWORD \<times> 'w"
  LoadResource :: "64 word \<Rightarrow> 64 word \<Rightarrow> 'w \<Rightarrow> 64 word \<times> 'w"
  LockResource :: "64 word \<Rightarrow> 'w \<Rightarrow> 64 word \<times> 'w"
  SetLastError :: "DWORD \<Rightarrow> 'w \<Rightarrow> 'w"
  GetLastError :: "'w \<Rightarrow> DWORD"
  M2GetLastError :: "'w \<Rightarrow> HRESULT"

text \<open>
  The trace: one event for each call, with its arguments and its result, in the order
  of the calls.
\<close>

datatype event =
    Ev_CreateFileW wstring DWORD DWORD DWORD DWORD HANDLE
  | Ev_CloseHandle HANDLE
  | Ev_GetFileBasicInfo HANDLE BOOL
  | Ev_GetFileStandardInfo HANDLE BOOL
  | Ev_SetFileBasicInfo HANDLE FILE_BASIC_INFO BOOL
  | Ev_SetFileDispositionInfo HANDLE FILE_DISPOSITION_INFO BOOL
  | Ev_GetSystemWindowsDirectoryW "wstring option" UINT UINT
  | Ev_FindResourceExW "64 word" resource_id resource_id "16 word" "64 word"
  | Ev_SizeofResource "64 word" "64 word" DWORD
  | Ev_LoadResource "64 word" "64 word" "64 word"
  | Ev_LockResource "64 word" "64 word"
  | Ev_SetLastError DWORD
  | Ev_GetLastError DWORD
  | Ev_M2GetLastError HRESULT

record 'w os_state =
  world :: 'w
  trace :: "event list"

definition init :: "'w \<Rightarrow> 'w os_state" where
  "init w = \<lparr>world = w, trace = []\<rparr>"

definition log :: "event \<Rightarrow> 'w \<Rightarrow> 'w os_state \<Rightarrow> 'w os_state" where
  "log e w s = \<lparr>world = w, trace = trace s @ [e]\<rparr>"

definition call_CreateFileW ::
  "'w kernel \<Rightarrow> wstring \<Rightarrow> DWORD \<Rightarrow> DWORD \<Rightarrow> DWORD \<Rightarrow> DWORD \<Rightarrow> 'w os_state \<Rightarrow> HANDLE \<times> 'w os_state" where
  "call_CreateFileW k name access share disp flags s =
     (let (h, w) = CreateFileW k name access share disp flags (world s)
      in (h, log (Ev_CreateFileW name access share disp flags h) w s))"

definition call_CloseHandle :: "'w kernel \<Rightarrow> HANDLE \<Rightarrow> 'w os_state \<Rightarrow> BOOL \<times> 'w os_state" where
  "call_CloseHandle k h s =
     (let (r, w) = CloseHandle k h (world s) in (r, log (Ev_CloseHandle h) w s))"

definition call_GetFileBasicInfo ::
  "'w kernel \<Rightarrow> HANDLE \<Rightarrow> 'w os_state \<Rightarrow> (BOOL \<times> FILE_BASIC_INFO) \<times> 'w os_state" where
  "call_GetFileBasicInfo k h s =
     (let ((r, info), w) = GetFileBasicInfo k h (world s)
      in ((r, info), log (Ev_GetFileBasicInfo h r) w s))"

definition call_GetFileStandardInfo ::
  "'w kernel \<Rightarrow> HANDLE \<Rightarrow> 'w os_state \<Rightarrow> (BOOL \<times> FILE_STANDARD_INFO) \<times> 'w os_state" where
  "call_GetFileStandardInfo k h s =
     (let ((r, info), w) = GetFileStandardInfo k h (world s)
      in ((r, info), log (Ev_GetFileStandardInfo h r) w s))"

definition call_SetFileBasicInfo ::
  "'w kernel \<Rightarrow> HANDLE \<Rightarrow> FILE_BASIC_INFO \<Rightarrow> 'w os_state \<Rightarrow> BOOL \<times> 'w os_state" where
  "call_SetFileBasicInfo k h info s =
     (let (r, w) = SetFileBasicInfo k h info (world s)
      in (r, log (Ev_SetFileBasicInfo h info r) w s))"

definition call_SetFileDispositionInfo ::
  "'w kernel \<Rightarrow> HANDLE \<Rightarrow> FILE_DISPOSITION_INFO \<Rightarrow> 'w os_state \<Rightarrow> BOOL \<times> 'w os_state" where
  "call_SetFileDispositionInfo k h info s =
     (let (r, w) = SetFileDispositionInfo k h info (world s)
      in (r, log (Ev_SetFileDispositionInfo h info r) w s))"

definition call_M2GetLastError :: "'w kernel \<Rightarrow> 'w os_state \<Rightarrow> HRESULT \<times> 'w os_state" where
  "call_M2GetLastError k s =
     (let hr = M2GetLastError k (world s) in (hr, log (Ev_M2GetLastError hr) (world s) s))"

subsection \<open>M2GetFileAttributes and M2SetFileAttributes\<close>

definition M2GetFileAttributes :: "'w kernel \<Rightarrow> HANDLE \<Rightarrow> 'w os_state \<Rightarrow> DWORD \<times> 'w os_state" where
  "M2GetFileAttributes k hFile s =
     (let ((ret, BasicInfo), s1) = call_GetFileBasicInfo k hFile s
      in (if ret \<noteq> 0 then FileAttributes BasicInfo else INVALID_FILE_ATTRIBUTES, s1))"

definition M2SetFileAttributes ::
  "'w kernel \<Rightarrow> HANDLE \<Rightarrow> DWORD \<Rightarrow> 'w os_state \<Rightarrow> HRESULT \<times> 'w os_state" where
  "M2SetFileAttributes k hFile dwFileAttributes s =
     (let BasicInfo = \<lparr>CreationTime = 0, LastAccessTime = 0, LastWriteTime = 0,
                       ChangeTime = 0, FileAttributes = 0\<rparr>;
          BasicInfo = BasicInfo\<lparr>FileAttributes :=
            dwFileAttributes AND (
              FILE_SHARE_READ OR
              FILE_SHARE_WRITE OR
              FILE_SHARE_DELETE OR
              FILE_ATTRIBUTE_ARCHIVE OR
              FILE_ATTRIBUTE_TEMPORARY OR
              FILE_ATTRIBUTE_OFFLINE OR
              FILE_ATTRIBUTE_NOT_CONTENT_INDEXED OR
              FILE_ATTRIBUTE_NO_SCRUB_DATA) OR
            FILE_ATTRIBUTE_NORMAL\<rparr>;
          (ret, s1) = call_SetFileBasicInfo k hFile BasicInfo s
      in if ret \<noteq> 0 then (S_OK, s1) else call_M2GetLastError k s1)"

subsection \<open>M2DeleteFile\<close>

text \<open>
  The label \<open>Cleanup\<close>: the handle is closed and the result code returned. The jump
  from the failed open reaches it with \<open>INVALID_HANDLE_VALUE\<close>.
\<close>

definition M2DeleteFile_Cleanup ::
  "'w kernel \<Rightarrow> HANDLE \<Rightarrow> HRESULT \<Rightarrow> 'w os_state \<Rightarrow> HRESULT \<times> 'w os_state" where
  "M2DeleteFile_Cleanup k hFile hr s =
     (let (_, s1) = call_CloseHandle k hFile s in (hr, s1))"

text \<open>
  The test of the restore step is \<open>bForceDeleteReadOnlyFile & !SUCCEEDED(hr)\<close>: both
  operands are promoted to \<open>int\<close>, combined bitwise, and the result compared with zero.
  The argument of the unprotect write is \<open>OldAttribute & (-1 ^ FILE_ATTRIBUTE_READONLY)\<close>
  (\<open>remove_readonly\<close>): the operands of \<open>^\<close> are of type \<open>int\<close>, and the conjunction with
  the \<open>DWORD\<close> converts the result to 32 bits, where it is computed here.
\<close>

definition remove_readonly :: "DWORD \<Rightarrow> DWORD" where
  "remove_readonly OldAttribute = OldAttribute AND (- 1 XOR FILE_ATTRIBUTE_READONLY)"

definition restore_test :: "bool \<Rightarrow> HRESULT \<Rightarrow> bool" where
  "restore_test bForceDeleteReadOnlyFile hr =
     ((of_bool bForceDeleteReadOnlyFile AND of_bool (\<not> SUCCEEDED hr)) \<noteq> (0 :: int))"

definition M2DeleteFile ::
  "'w kernel \<Rightarrow> wstring \<Rightarrow> bool \<Rightarrow> 'w os_state \<Rightarrow> HRESULT \<times> 'w os_state" where
  "M2DeleteFile k lpFileName bForceDeleteReadOnlyFile s =
     (let hr = S_OK;
          (hFile, s1) = call_CreateFileW k lpFileName
            (SYNCHRONIZE OR DELETE OR FILE_READ_ATTRIBUTES OR FILE_WRITE_ATTRIBUTES)
            (FILE_SHARE_READ OR FILE_SHARE_WRITE OR FILE_SHARE_DELETE)
            OPEN_EXISTING
            (FILE_FLAG_BACKUP_SEMANTICS OR FILE_FLAG_OPEN_REPARSE_POINT) s
      in if INVALID_HANDLE_VALUE = hFile then
           (let (hr, s2) = call_M2GetLastError k s1
            in M2DeleteFile_Cleanup k hFile hr s2)
         else
           (let DispostionInfo = \<lparr>DeleteFile = TRUE\<rparr>;
                OldAttribute = 0;
                (OldAttribute, s2) =
                  (if bForceDeleteReadOnlyFile then
                     (let (OldAttribute, sa) = M2GetFileAttributes k hFile s1;
                          (_, sb) = M2SetFileAttributes k hFile
                            (remove_readonly OldAttribute) sa
                      in (OldAttribute, sb))
                   else (OldAttribute, s1));
                (ret, s3) = call_SetFileDispositionInfo k hFile DispostionInfo s2;
                (hr, s4) = (if ret = 0 then call_M2GetLastError k s3 else (hr, s3));
                s5 = (if restore_test bForceDeleteReadOnlyFile hr
                      then snd (M2SetFileAttributes k hFile OldAttribute s4) else s4)
            in M2DeleteFile_Cleanup k hFile hr s5))"

subsection \<open>M2GetFileAllocationSize and M2GetFileSize\<close>

text \<open>
  The out-parameter is the second component of the result: the value stored at
  \<open>lpAllocationSize\<close> (at \<open>lpFileSize\<close>) when the function returns.
\<close>

definition M2GetFileSize_Cleanup ::
  "'w kernel \<Rightarrow> HANDLE \<Rightarrow> HRESULT \<Rightarrow> ULONGLONG \<Rightarrow> 'w os_state \<Rightarrow> (HRESULT \<times> ULONGLONG) \<times> 'w os_state" where
  "M2GetFileSize_Cleanup k hFile hr out s =
     (let (_, s1) = call_CloseHandle k hFile s in ((hr, out), s1))"

definition M2GetFileAllocationSize ::
  "'w kernel \<Rightarrow> wstring \<Rightarrow> 'w os_state \<Rightarrow> (HRESULT \<times> ULONGLONG) \<times> 'w os_state" where
  "M2GetFileAllocationSize k lpFileName s =
     (let lpAllocationSize = 0;
          hr = S_OK;
          (hFile, s1) = call_CreateFileW k lpFileName
            (GENERIC_READ OR SYNCHRONIZE)
            FILE_SHARE_READ
            OPEN_EXISTING
            (FILE_FLAG_BACKUP_SEMANTICS OR FILE_FLAG_OPEN_REPARSE_POINT) s
      in if INVALID_HANDLE_VALUE = hFile then
           (let (hr, s2) = call_M2GetLastError k s1
            in M2GetFileSize_Cleanup k hFile hr lpAllocationSize s2)
         else
           (let ((ret, StandardInfo), s2) = call_GetFileStandardInfo k hFile s1
            in if ret = 0 then
                 (let (hr, s3) = call_M2GetLastError k s2
                  in M2GetFileSize_Cleanup k hFile hr lpAllocationSize s3)
               else
                 (let lpAllocationSize = AllocationSize StandardInfo
                  in M2GetFileSize_Cleanup k hFile hr lpAllocationSize s2)))"

definition M2GetFileSize ::
  "'w kernel \<Rightarrow> wstring \<Rightarrow> 'w os_state \<Rightarrow> (HRESULT \<times> ULONGLONG) \<times> 'w os_state" where
  "M2GetFileSize k lpFileName s =
     (let lpFileSize = 0;
          hr = S_OK;
          (hFile, s1) = call_CreateFileW k lpFileName
            (GENERIC_READ OR SYNCHRONIZE)
            FILE_SHARE_READ
            OPEN_EXISTING
            (FILE_FLAG_BACKUP_SEMANTICS OR FILE_FLAG_OPEN_REPARSE_POINT) s
      in if INVALID_HANDLE_VALUE = hFile then
           (let (hr, s2) = call_M2GetLastError k s1
            in M2GetFileSize_Cleanup k hFile hr lpFileSize s2)
         else
           (let ((ret, StandardInfo), s2) = call_GetFileStandardInfo k hFile s1
            in if ret = 0 then
                 (let (hr, s3) = call_M2GetLastError k s2
                  in M2GetFileSize_Cleanup k hFile hr lpFileSize s3)
               else
                 (let lpFileSize = EndOfFile StandardInfo
                  in M2GetFileSize_Cleanup k hFile hr lpFileSize s2)))"

subsection \<open>M2GetWindowsDirectory\<close>

text \<open>
  \<open>std::wstring::resize\<close> truncates or pads with null characters. The system writes
  into the string's buffer and cannot change the string's size: the characters it
  returns overwrite a prefix of the string.
\<close>

definition resize_wstring :: "nat \<Rightarrow> wstring \<Rightarrow> wstring" where
  "resize_wstring n str = take n str @ replicate (n - length str) 0"

definition write_buffer :: "wstring \<Rightarrow> wstring \<Rightarrow> wstring" where
  "write_buffer written str = take (length str) (written @ drop (length written) str)"

definition call_GetSystemWindowsDirectoryW ::
  "'w kernel \<Rightarrow> wstring option \<Rightarrow> UINT \<Rightarrow> 'w os_state \<Rightarrow> (UINT \<times> wstring) \<times> 'w os_state" where
  "call_GetSystemWindowsDirectoryW k buf n s =
     (let ((r, written), w) = GetSystemWindowsDirectoryW k buf n (world s)
      in ((r, written), log (Ev_GetSystemWindowsDirectoryW buf n r) w s))"

text \<open>The code after the \<open>do\<close> block: a failure clears the string.\<close>

definition M2GetWindowsDirectory_exit ::
  "HRESULT \<Rightarrow> wstring \<Rightarrow> 'w os_state \<Rightarrow> (HRESULT \<times> wstring) \<times> 'w os_state" where
  "M2GetWindowsDirectory_exit hr WindowsFolderPath s =
     ((hr, if FAILED hr then [] else WindowsFolderPath), s)"

definition M2GetWindowsDirectory ::
  "'w kernel \<Rightarrow> wstring \<Rightarrow> 'w os_state \<Rightarrow> (HRESULT \<times> wstring) \<times> 'w os_state" where
  "M2GetWindowsDirectory k WindowsFolderPath s =
     (let hr = S_OK;
          ((Length, _), s1) = call_GetSystemWindowsDirectoryW k None 0 s
      in if 0 = Length then
           (let (hr, s2) = call_M2GetLastError k s1
            in M2GetWindowsDirectory_exit hr WindowsFolderPath s2)
         else
           (let WindowsFolderPath = resize_wstring (unat (Length - 1)) WindowsFolderPath;
                ((Length, written), s2) =
                  call_GetSystemWindowsDirectoryW k (Some WindowsFolderPath) Length s1;
                WindowsFolderPath = write_buffer written WindowsFolderPath
            in if 0 = Length then
                 (let (hr, s3) = call_M2GetLastError k s2
                  in M2GetWindowsDirectory_exit hr WindowsFolderPath s3)
               else if length WindowsFolderPath \<noteq> unat Length then
                 M2GetWindowsDirectory_exit E_UNEXPECTED WindowsFolderPath s2
               else M2GetWindowsDirectory_exit hr WindowsFolderPath s2))"

subsection \<open>M2LoadResource\<close>

definition call_FindResourceExW ::
  "'w kernel \<Rightarrow> 64 word \<Rightarrow> resource_id \<Rightarrow> resource_id \<Rightarrow> 16 word \<Rightarrow> 'w os_state \<Rightarrow> 64 word \<times> 'w os_state" where
  "call_FindResourceExW k hModule lpType lpName lang s =
     (let (r, w) = FindResourceExW k hModule lpType lpName lang (world s)
      in (r, log (Ev_FindResourceExW hModule lpType lpName lang r) w s))"

definition call_SizeofResource ::
  "'w kernel \<Rightarrow> 64 word \<Rightarrow> 64 word \<Rightarrow> 'w os_state \<Rightarrow> DWORD \<times> 'w os_state" where
  "call_SizeofResource k hModule hResInfo s =
     (let (r, w) = SizeofResource k hModule hResInfo (world s)
      in (r, log (Ev_SizeofResource hModule hResInfo r) w s))"

definition call_LoadResource ::
  "'w kernel \<Rightarrow> 64 word \<Rightarrow> 64 word \<Rightarrow> 'w os_state \<Rightarrow> 64 word \<times> 'w os_state" where
  "call_LoadResource k hModule hResInfo s =
     (let (r, w) = LoadResource k hModule hResInfo (world s)
      in (r, log (Ev_LoadResource hModule hResInfo r) w s))"

definition call_LockResource :: "'w kernel \<Rightarrow> 64 word \<Rightarrow> 'w os_state \<Rightarrow> 64 word \<times> 'w os_state" where
  "call_LockResource k hResData s =
     (let (r, w) = LockResource k hResData (world s)
      in (r, log (Ev_LockResource hResData r) w s))"

definition call_SetLastError :: "'w kernel \<Rightarrow> DWORD \<Rightarrow> 'w os_state \<Rightarrow> 'w os_state" where
  "call_SetLastError k e s = log (Ev_SetLastError e) (SetLastError k e (world s)) s"

definition call_GetLastError :: "'w kernel \<Rightarrow> 'w os_state \<Rightarrow> DWORD \<times> 'w os_state" where
  "call_GetLastError k s =
     (let e = GetLastError k (world s) in (e, log (Ev_GetLastError e) (world s) s))"

text \<open>
  The return statement is \<open>__HRESULT_FROM_WIN32(GetLastError())\<close>. The macro names its
  argument twice, once in the test and once in the branch taken, so the expansion calls
  \<open>GetLastError\<close> twice: the first value decides the branch, the second is translated.
\<close>

definition HRESULT_FROM_WIN32_GetLastError ::
  "'w kernel \<Rightarrow> 'w os_state \<Rightarrow> HRESULT \<times> 'w os_state" where
  "HRESULT_FROM_WIN32_GetLastError k s =
     (let (x, s1) = call_GetLastError k s
      in if sint x \<le> 0 then call_GetLastError k s1
         else
           (let (y, s2) = call_GetLastError k s1
            in ((y AND 0x0000FFFF) OR push_bit 16 FACILITY_WIN32 OR 0x80000000, s2)))"

text \<open>
  \<open>lpResourceInfo\<close> is \<open>None\<close> for \<open>nullptr\<close>, otherwise the structure it points to;
  the second component of the result is the structure when the function returns.
\<close>

definition M2LoadResource ::
  "'w kernel \<Rightarrow> M2_RESOURCE_INFO option \<Rightarrow> 64 word \<Rightarrow> resource_id \<Rightarrow> resource_id \<Rightarrow> 'w os_state
     \<Rightarrow> (HRESULT \<times> M2_RESOURCE_INFO option) \<times> 'w os_state" where
  "M2LoadResource k lpResourceInfo hModule lpType lpName s =
     (case lpResourceInfo of
        None \<Rightarrow> ((E_INVALIDARG, None), s)
      | Some info \<Rightarrow>
          (let s1 = call_SetLastError k ERROR_SUCCESS s;
               info = info\<lparr>Size := 0\<rparr>;
               info = info\<lparr>Pointer := nullptr\<rparr>;
               (ResourceFind, s2) = call_FindResourceExW k hModule lpType lpName
                 (MAKELANGID LANG_NEUTRAL SUBLANG_NEUTRAL) s1;
               (info, s3) =
                 (if nullptr \<noteq> ResourceFind then
                    (let (sz, sa) = call_SizeofResource k hModule ResourceFind s2;
                         info = info\<lparr>Size := sz\<rparr>;
                         (ResourceLoad, sb) = call_LoadResource k hModule ResourceFind sa
                     in if nullptr \<noteq> ResourceLoad then
                          (let (p, sc) = call_LockResource k ResourceLoad sb
                           in (info\<lparr>Pointer := p\<rparr>, sc))
                        else (info, sb))
                  else (info, s2));
               (hr, s4) = HRESULT_FROM_WIN32_GetLastError k s3
           in ((hr, Some info), s4)))"

subsection \<open>Observations on traces\<close>

fun is_attribute_read :: "event \<Rightarrow> bool" where
  "is_attribute_read (Ev_GetFileBasicInfo h r) = True"
| "is_attribute_read _ = False"

fun is_attribute_write :: "event \<Rightarrow> bool" where
  "is_attribute_write (Ev_SetFileBasicInfo h info r) = True"
| "is_attribute_write _ = False"

fun is_disposition :: "event \<Rightarrow> bool" where
  "is_disposition (Ev_SetFileDispositionInfo h info r) = True"
| "is_disposition _ = False"



fun is_close :: "event \<Rightarrow> bool" where
  "is_close (Ev_CloseHandle h) = True"
| "is_close _ = False"



text \<open>The open of \<open>M2DeleteFile\<close> and the open of the two size queries, with their flags.\<close>

definition M2DeleteFile_open :: "'w kernel \<Rightarrow> wstring \<Rightarrow> 'w \<Rightarrow> HANDLE \<times> 'w" where
  "M2DeleteFile_open k lpFileName w =
     CreateFileW k lpFileName
       (SYNCHRONIZE OR DELETE OR FILE_READ_ATTRIBUTES OR FILE_WRITE_ATTRIBUTES)
       (FILE_SHARE_READ OR FILE_SHARE_WRITE OR FILE_SHARE_DELETE)
       OPEN_EXISTING
       (FILE_FLAG_BACKUP_SEMANTICS OR FILE_FLAG_OPEN_REPARSE_POINT) w"

text \<open>The structure that \<open>M2SetFileAttributes\<close> hands to the system, and its call.\<close>

definition M2SetFileAttributes_info :: "DWORD \<Rightarrow> FILE_BASIC_INFO" where
  "M2SetFileAttributes_info dwFileAttributes =
     \<lparr>CreationTime = 0, LastAccessTime = 0, LastWriteTime = 0, ChangeTime = 0,
      FileAttributes =
        dwFileAttributes AND (
          FILE_SHARE_READ OR
          FILE_SHARE_WRITE OR
          FILE_SHARE_DELETE OR
          FILE_ATTRIBUTE_ARCHIVE OR
          FILE_ATTRIBUTE_TEMPORARY OR
          FILE_ATTRIBUTE_OFFLINE OR
          FILE_ATTRIBUTE_NOT_CONTENT_INDEXED OR
          FILE_ATTRIBUTE_NO_SCRUB_DATA) OR
        FILE_ATTRIBUTE_NORMAL\<rparr>"

definition M2SetFileAttributes_write :: "'w kernel \<Rightarrow> HANDLE \<Rightarrow> DWORD \<Rightarrow> 'w \<Rightarrow> BOOL \<times> 'w" where
  "M2SetFileAttributes_write k hFile dwFileAttributes w =
     SetFileBasicInfo k hFile (M2SetFileAttributes_info dwFileAttributes) w"

definition M2GetFileSize_open :: "'w kernel \<Rightarrow> wstring \<Rightarrow> 'w \<Rightarrow> HANDLE \<times> 'w" where
  "M2GetFileSize_open k lpFileName w =
     CreateFileW k lpFileName
       (GENERIC_READ OR SYNCHRONIZE)
       FILE_SHARE_READ
       OPEN_EXISTING
       (FILE_FLAG_BACKUP_SEMANTICS OR FILE_FLAG_OPEN_REPARSE_POINT) w"

subsection \<open>A scripted system, for concrete runs\<close>

text \<open>
  A system that answers each call with the next number of a script. The answer 0 is a
  failure (a null or invalid handle, a false \<open>BOOL\<close>, a zero length) and sets the
  last-error code to 5 (\<open>ERROR_ACCESS_DENIED\<close>). Closing a handle always succeeds and
  consumes no answer. Its \<open>M2GetLastError\<close> translates the last-error code with
  \<open>__HRESULT_FROM_WIN32\<close>.
\<close>

record scripted =
  script :: "nat list"
  last_error :: DWORD

definition next_answer :: "scripted \<Rightarrow> nat \<times> scripted" where
  "next_answer w =
     (case script w of
        [] \<Rightarrow> (0, w\<lparr>last_error := 5\<rparr>)
      | a # as \<Rightarrow> (a, w\<lparr>script := as, last_error := (if a = 0 then 5 else last_error w)\<rparr>))"

definition zero_basic_info :: FILE_BASIC_INFO where
  "zero_basic_info = \<lparr>CreationTime = 0, LastAccessTime = 0, LastWriteTime = 0,
                       ChangeTime = 0, FileAttributes = 0\<rparr>"

definition scripted_kernel :: "scripted kernel" where
  "scripted_kernel =
     \<lparr>CreateFileW = (\<lambda>name access share disp flags w.
        let (a, w1) = next_answer w
        in (if a = 0 then INVALID_HANDLE_VALUE else of_nat a, w1)),
      CloseHandle = (\<lambda>h w. (1, w)),
      GetFileBasicInfo = (\<lambda>h w.
        let (a, w1) = next_answer w
        in ((if a = 0 then 0 else 1, zero_basic_info\<lparr>FileAttributes := of_nat a\<rparr>), w1)),
      GetFileStandardInfo = (\<lambda>h w.
        let (a, w1) = next_answer w
        in ((if a = 0 then 0 else 1,
             \<lparr>AllocationSize = of_nat (2 * a), EndOfFile = of_nat a, NumberOfLinks = 1,
              DeletePending = False, Directory = False\<rparr>), w1)),
      SetFileBasicInfo = (\<lambda>h info w. let (a, w1) = next_answer w in (of_nat a, w1)),
      SetFileDispositionInfo = (\<lambda>h info w. let (a, w1) = next_answer w in (of_nat a, w1)),
      GetSystemWindowsDirectoryW = (\<lambda>buf n w.
        let (a, w1) = next_answer w in ((of_nat a, replicate a 0x57), w1)),
      FindResourceExW = (\<lambda>hModule lpType lpName lang w.
        let (a, w1) = next_answer w in (of_nat a, w1)),
      SizeofResource = (\<lambda>hModule hResInfo w. let (a, w1) = next_answer w in (of_nat a, w1)),
      LoadResource = (\<lambda>hModule hResInfo w. let (a, w1) = next_answer w in (of_nat a, w1)),
      LockResource = (\<lambda>hResData w. let (a, w1) = next_answer w in (of_nat a, w1)),
      SetLastError = (\<lambda>e w. w\<lparr>last_error := e\<rparr>),
      GetLastError = last_error,
      M2GetLastError = (\<lambda>w. HRESULT_FROM_WIN32 (last_error w))\<rparr>"

definition scripted_run :: "nat list \<Rightarrow> scripted os_state" where
  "scripted_run answers = init \<lparr>script = answers, last_error = 0\<rparr>"

text \<open>
  A second system: the scripted one, except that its disposition call, its directory
  query and its resource load take their answer without touching the last-error code, so
  that a failure of one of them leaves the code as it was.
\<close>

definition silent_answer :: "scripted \<Rightarrow> nat \<times> scripted" where
  "silent_answer w =
     (case script w of
        [] \<Rightarrow> (0, w)
      | a # as \<Rightarrow> (a, w\<lparr>script := as\<rparr>))"

definition silent_kernel :: "scripted kernel" where
  "silent_kernel =
     scripted_kernel
       \<lparr>SetFileDispositionInfo := (\<lambda>h info w. let (a, w1) = silent_answer w in (of_nat a, w1)),
        GetSystemWindowsDirectoryW := (\<lambda>buf n w.
          let (a, w1) = silent_answer w in ((of_nat a, replicate a 0x57), w1)),
        LoadResource := (\<lambda>hModule hResInfo w. let (a, w1) = silent_answer w in (of_nat a, w1))\<rparr>"

subsection \<open>The attribute mask as the specification lists it\<close>


section \<open>Basic facts\<close>

lemma restore_test_iff: "restore_test b hr \<longleftrightarrow> b \<and> \<not> SUCCEEDED hr"
  by (cases b; cases "SUCCEEDED hr") (simp_all add: restore_test_def)

lemma FAILED_iff: "FAILED hr \<longleftrightarrow> \<not> SUCCEEDED hr"
  by (auto simp: FAILED_def SUCCEEDED_def)

lemma world_log [simp]: "world (log e w s) = w"
  by (simp add: log_def)

lemma trace_log [simp]: "trace (log e w s) = trace s @ [e]"
  by (simp add: log_def)

lemma trace_init [simp]: "trace (init w) = []"
  by (simp add: init_def)

lemma world_init [simp]: "world (init w) = w"
  by (simp add: init_def)

lemmas call_defs = call_CreateFileW_def call_CloseHandle_def call_GetFileBasicInfo_def
  call_GetFileStandardInfo_def call_SetFileBasicInfo_def call_SetFileDispositionInfo_def
  call_M2GetLastError_def call_GetSystemWindowsDirectoryW_def call_FindResourceExW_def
  call_SizeofResource_def call_LoadResource_def call_LockResource_def call_SetLastError_def
  call_GetLastError_def

lemmas attr_defs = FILE_SHARE_READ_def FILE_SHARE_WRITE_def FILE_SHARE_DELETE_def 
  FILE_ATTRIBUTE_READONLY_def FILE_ATTRIBUTE_HIDDEN_def FILE_ATTRIBUTE_SYSTEM_def FILE_ATTRIBUTE_ARCHIVE_def
  FILE_ATTRIBUTE_TEMPORARY_def FILE_ATTRIBUTE_OFFLINE_def FILE_ATTRIBUTE_NOT_CONTENT_INDEXED_def FILE_ATTRIBUTE_NO_SCRUB_DATA_def
  FILE_ATTRIBUTE_NORMAL_def

lemmas scripted_defs = scripted_kernel_def scripted_run_def next_answer_def zero_basic_info_def
  silent_kernel_def silent_answer_def

lemmas const_defs = S_OK_def E_INVALIDARG_def E_UNEXPECTED_def ERROR_SUCCESS_def FACILITY_WIN32_def
  TRUE_def nullptr_def INVALID_HANDLE_VALUE_def INVALID_FILE_ATTRIBUTES_def attr_defs
  SYNCHRONIZE_def DELETE_def FILE_READ_ATTRIBUTES_def FILE_WRITE_ATTRIBUTES_def GENERIC_READ_def
  OPEN_EXISTING_def FILE_FLAG_BACKUP_SEMANTICS_def FILE_FLAG_OPEN_REPARSE_POINT_def
  LANG_NEUTRAL_def SUBLANG_NEUTRAL_def MAKELANGID_def

lemmas run_defs = M2DeleteFile_def M2DeleteFile_Cleanup_def M2SetFileAttributes_def
  M2GetFileAttributes_def M2GetFileAllocationSize_def M2GetFileSize_def M2GetFileSize_Cleanup_def
  M2GetWindowsDirectory_def M2GetWindowsDirectory_exit_def M2LoadResource_def
  remove_readonly_def restore_test_def call_defs log_def init_def Let_def
  HRESULT_FROM_WIN32_def HRESULT_FROM_WIN32_GetLastError_def FAILED_def SUCCEEDED_def
  resize_wstring_def write_buffer_def

subsection \<open>The runs of M2SetFileAttributes, M2GetFileAttributes and M2DeleteFile\<close>

text \<open>
  Each lemma names the answers of the system calls of one path through the function and
  gives the result code, the final system state and the whole trace of that path.
\<close>

lemma M2SetFileAttributes_run:
  assumes "M2SetFileAttributes_write k h dw (world s) = (r, w1)"
  shows "M2SetFileAttributes k h dw s =
     (if r \<noteq> 0 then S_OK else M2GetLastError k w1,
      \<lparr>world = w1,
       trace = trace s @ Ev_SetFileBasicInfo h (M2SetFileAttributes_info dw) r #
                 (if r \<noteq> 0 then [] else [Ev_M2GetLastError (M2GetLastError k w1)])\<rparr>)"
  using assms
  by (simp add: M2SetFileAttributes_def M2SetFileAttributes_write_def M2SetFileAttributes_info_def
      call_defs Let_def log_def)

lemma M2GetFileAttributes_run:
  assumes "GetFileBasicInfo k h (world s) = ((r, info), w1)"
  shows "M2GetFileAttributes k h s =
     (if r \<noteq> 0 then FileAttributes info else INVALID_FILE_ATTRIBUTES,
      \<lparr>world = w1, trace = trace s @ [Ev_GetFileBasicInfo h r]\<rparr>)"
  using assms by (simp add: M2GetFileAttributes_def call_defs Let_def log_def)

lemma M2GetFileAttributes_result:
  assumes "GetFileBasicInfo k h w = ((r, info), w1)"
  shows "fst (M2GetFileAttributes k h (init w)) =
     (if r \<noteq> 0 then FileAttributes info else INVALID_FILE_ATTRIBUTES)"
proof -
  from assms have "GetFileBasicInfo k h (world (init w)) = ((r, info), w1)"
    by simp
  from M2GetFileAttributes_run [OF this] show ?thesis
    by simp
qed

lemma M2DeleteFile_Cleanup_run:
  "M2DeleteFile_Cleanup k h hr s =
     (hr, \<lparr>world = snd (CloseHandle k h (world s)), trace = trace s @ [Ev_CloseHandle h]\<rparr>)"
  by (simp add: M2DeleteFile_Cleanup_def call_defs Let_def split_beta log_def)

lemma M2DeleteFile_open_failed:
  assumes "M2DeleteFile_open k name w = (INVALID_HANDLE_VALUE, w1)"
  shows "M2DeleteFile k name force (init w) =
     (M2GetLastError k w1,
      \<lparr>world = snd (CloseHandle k INVALID_HANDLE_VALUE w1),
       trace = [Ev_CreateFileW name
                  (SYNCHRONIZE OR DELETE OR FILE_READ_ATTRIBUTES OR FILE_WRITE_ATTRIBUTES)
                  (FILE_SHARE_READ OR FILE_SHARE_WRITE OR FILE_SHARE_DELETE)
                  OPEN_EXISTING
                  (FILE_FLAG_BACKUP_SEMANTICS OR FILE_FLAG_OPEN_REPARSE_POINT)
                  INVALID_HANDLE_VALUE,
                Ev_M2GetLastError (M2GetLastError k w1),
                Ev_CloseHandle INVALID_HANDLE_VALUE]\<rparr>)"
  using assms
  by (simp add: M2DeleteFile_def M2DeleteFile_open_def M2DeleteFile_Cleanup_run call_defs Let_def log_def init_def)

lemma M2DeleteFile_plain:
  assumes "M2DeleteFile_open k name w = (h, w1)" and "h \<noteq> INVALID_HANDLE_VALUE"
    and "SetFileDispositionInfo k h \<lparr>DeleteFile = TRUE\<rparr> w1 = (r, w2)"
  shows "M2DeleteFile k name False (init w) =
     (if r = 0 then M2GetLastError k w2 else S_OK,
      \<lparr>world = snd (CloseHandle k h w2),
       trace = Ev_CreateFileW name
                  (SYNCHRONIZE OR DELETE OR FILE_READ_ATTRIBUTES OR FILE_WRITE_ATTRIBUTES)
                  (FILE_SHARE_READ OR FILE_SHARE_WRITE OR FILE_SHARE_DELETE)
                  OPEN_EXISTING
                  (FILE_FLAG_BACKUP_SEMANTICS OR FILE_FLAG_OPEN_REPARSE_POINT) h #
               Ev_SetFileDispositionInfo h \<lparr>DeleteFile = TRUE\<rparr> r #
               (if r = 0 then [Ev_M2GetLastError (M2GetLastError k w2)] else []) @
               [Ev_CloseHandle h]\<rparr>)"
  using assms
  by (simp add: M2DeleteFile_def M2DeleteFile_open_def M2DeleteFile_Cleanup_run call_defs Let_def log_def init_def restore_test_iff)

lemma M2DeleteFile_forced:
  assumes "M2DeleteFile_open k name w = (h, w1)" and "h \<noteq> INVALID_HANDLE_VALUE"
    and "GetFileBasicInfo k h w1 = ((gr, info), wa)"
    and "old = (if gr \<noteq> 0 then FileAttributes info else INVALID_FILE_ATTRIBUTES)"
    and "M2SetFileAttributes_write k h (remove_readonly old) wa = (sr, wb)"
    and "SetFileDispositionInfo k h \<lparr>DeleteFile = TRUE\<rparr> wb = (r, w2)"
    and "hr = (if r = 0 then M2GetLastError k w2 else S_OK)"
    and "M2SetFileAttributes_write k h old w2 = (rr, w3)"
  shows "M2DeleteFile k name True (init w) =
     (hr,
      \<lparr>world = snd (CloseHandle k h (if FAILED hr then w3 else w2)),
       trace = Ev_CreateFileW name
                  (SYNCHRONIZE OR DELETE OR FILE_READ_ATTRIBUTES OR FILE_WRITE_ATTRIBUTES)
                  (FILE_SHARE_READ OR FILE_SHARE_WRITE OR FILE_SHARE_DELETE)
                  OPEN_EXISTING
                  (FILE_FLAG_BACKUP_SEMANTICS OR FILE_FLAG_OPEN_REPARSE_POINT) h #
               Ev_GetFileBasicInfo h gr #
               Ev_SetFileBasicInfo h (M2SetFileAttributes_info (remove_readonly old)) sr #
               (if sr = 0 then [Ev_M2GetLastError (M2GetLastError k wb)] else []) @
               Ev_SetFileDispositionInfo h \<lparr>DeleteFile = TRUE\<rparr> r #
               (if r = 0 then [Ev_M2GetLastError hr] else []) @
               (if FAILED hr
                then Ev_SetFileBasicInfo h (M2SetFileAttributes_info old) rr #
                     (if rr = 0 then [Ev_M2GetLastError (M2GetLastError k w3)] else [])
                else []) @
               [Ev_CloseHandle h]\<rparr>)"
proof -
  have s0: "FAILED S_OK = False" by (simp add: FAILED_def S_OK_def)
  show ?thesis using assms
  by (simp add: M2DeleteFile_def M2DeleteFile_open_def M2DeleteFile_Cleanup_run M2GetFileAttributes_run
     M2SetFileAttributes_run call_defs Let_def log_def init_def restore_test_iff FAILED_iff [symmetric] s0)
qed

lemma S_OK_not_FAILED [simp]: "\<not> FAILED S_OK"
  by (simp add: FAILED_def S_OK_def)

lemma M2DeleteFile_cases [case_names open_failed plain forced]:
  obtains
    w1 where "M2DeleteFile_open k name w = (INVALID_HANDLE_VALUE, w1)"
  | h w1 r w2 where "\<not> force" and "M2DeleteFile_open k name w = (h, w1)"
      and "h \<noteq> INVALID_HANDLE_VALUE"
      and "SetFileDispositionInfo k h \<lparr>DeleteFile = TRUE\<rparr> w1 = (r, w2)"
  | h w1 gr info wa old sr wb r w2 hr rr w3 where "force"
      and "M2DeleteFile_open k name w = (h, w1)" and "h \<noteq> INVALID_HANDLE_VALUE"
      and "GetFileBasicInfo k h w1 = ((gr, info), wa)"
      and "old = (if gr \<noteq> 0 then FileAttributes info else INVALID_FILE_ATTRIBUTES)"
      and "M2SetFileAttributes_write k h (remove_readonly old) wa = (sr, wb)"
      and "SetFileDispositionInfo k h \<lparr>DeleteFile = TRUE\<rparr> wb = (r, w2)"
      and "hr = (if r = 0 then M2GetLastError k w2 else S_OK)"
      and "M2SetFileAttributes_write k h old w2 = (rr, w3)"
proof -
  obtain h w1 where o: "M2DeleteFile_open k name w = (h, w1)"
    by (cases "M2DeleteFile_open k name w")
  show thesis
  proof (cases "h = INVALID_HANDLE_VALUE")
    case True
    with o show thesis by (simp add: that(1))
  next
    case valid: False
    show thesis
    proof (cases force)
      case False
      obtain r w2 where "SetFileDispositionInfo k h \<lparr>DeleteFile = TRUE\<rparr> w1 = (r, w2)"
        by (cases "SetFileDispositionInfo k h \<lparr>DeleteFile = TRUE\<rparr> w1")
      with False o valid show thesis by (rule that(2))
    next
      case True
      obtain gr info wa where g: "GetFileBasicInfo k h w1 = ((gr, info), wa)"
        by (cases "GetFileBasicInfo k h w1") auto
      define old where "old = (if gr \<noteq> 0 then FileAttributes info else INVALID_FILE_ATTRIBUTES)"
      obtain sr wb where u: "M2SetFileAttributes_write k h (remove_readonly old) wa = (sr, wb)"
        by (cases "M2SetFileAttributes_write k h (remove_readonly old) wa")
      obtain r w2 where d: "SetFileDispositionInfo k h \<lparr>DeleteFile = TRUE\<rparr> wb = (r, w2)"
        by (cases "SetFileDispositionInfo k h \<lparr>DeleteFile = TRUE\<rparr> wb")
      define hr where "hr = (if r = 0 then M2GetLastError k w2 else S_OK)"
      obtain rr w3 where "M2SetFileAttributes_write k h old w2 = (rr, w3)"
        by (cases "M2SetFileAttributes_write k h old w2")
      with True o valid g old_def u d hr_def show thesis by (rule that(3))
    qed
  qed
qed

section \<open>M2DeleteFile\<close>




text \<open>
  The result code as a function of the answers of the system: it is read from the open
  and from the disposition call; of the attribute calls only the state they leave enters.
\<close>

lemma M2DeleteFile_result:
  "fst (M2DeleteFile k lpFileName bForce (init w)) =
     (let (h, w1) = M2DeleteFile_open k lpFileName w
      in if h = INVALID_HANDLE_VALUE then M2GetLastError k w1
         else
           (let wd = (if bForce
                      then snd (M2SetFileAttributes_write k h
                             (remove_readonly (fst (M2GetFileAttributes k h (init w1))))
                             (snd (GetFileBasicInfo k h w1)))
                      else w1);
                (r, w2) = SetFileDispositionInfo k h \<lparr>DeleteFile = TRUE\<rparr> wd
            in if r = 0 then M2GetLastError k w2 else S_OK))"
proof (cases rule: M2DeleteFile_cases [where k = k and name = lpFileName and w = w and force = bForce])
  case (open_failed w1)
  then show ?thesis by (simp add: M2DeleteFile_open_failed [OF open_failed])
next
  case (plain h w1 r w2)
  then show ?thesis by (simp add: M2DeleteFile_plain [OF plain(2-4)])
next
  case (forced h w1 gr info wa old sr wb r w2 hr' rr w3)
  from forced(4,5) have "fst (M2GetFileAttributes k h (init w1)) = old"
    by (simp add: M2GetFileAttributes_result)
  with forced show ?thesis by (simp add: M2DeleteFile_forced [OF forced(2-9)])
qed

text \<open>
  Claim C3. The result code of \<open>M2DeleteFile\<close> is the outcome of the open or of the
  disposition call, never of a compensating step: it is the code after the failed open,
  or else \<open>S_OK\<close> or the code after the failed disposition call; and the values that the
  unprotect write and the restore write return have no effect on it: a system whose
  attribute write returns any other values \<open>b\<close>, with the same effect on the state,
  gives the same result code.
\<close>

theorem M2DeleteFile_result_is_primary_outcome:
  assumes "M2DeleteFile k lpFileName bForce (init w) = (hr, s')"
  shows "hr =
     (let (h, w1) = M2DeleteFile_open k lpFileName w
      in if h = INVALID_HANDLE_VALUE then M2GetLastError k w1
         else
           (let wd = (if bForce
                      then snd (M2SetFileAttributes_write k h
                             (remove_readonly (fst (M2GetFileAttributes k h (init w1))))
                             (snd (GetFileBasicInfo k h w1)))
                      else w1);
                (r, w2) = SetFileDispositionInfo k h \<lparr>DeleteFile = TRUE\<rparr> wd
            in if r = 0 then M2GetLastError k w2 else S_OK))
     \<and> (\<forall>b. fst (M2DeleteFile
                 (k\<lparr>SetFileBasicInfo := \<lambda>h info w. (b h info w, snd (SetFileBasicInfo k h info w))\<rparr>)
                 lpFileName bForce (init w)) = hr)"
proof -
  have hr: "hr = fst (M2DeleteFile k lpFileName bForce (init w))"
    using assms by simp
  have "fst (M2DeleteFile
                 (k\<lparr>SetFileBasicInfo := \<lambda>h info w. (b h info w, snd (SetFileBasicInfo k h info w))\<rparr>)
                 lpFileName bForce (init w)) = fst (M2DeleteFile k lpFileName bForce (init w))" for b
    unfolding M2DeleteFile_result
    by (simp add: M2DeleteFile_open_def M2SetFileAttributes_write_def M2GetFileAttributes_def
        call_defs Let_def split_beta)
  with hr show ?thesis by (simp add: M2DeleteFile_result)
qed

theorem M2DeleteFile_result_is_primary_outcome_witness:
  "fst (M2DeleteFile scripted_kernel [0x41] True (scripted_run [44, 33, 0, 0, 0])) = 0x80070005
   \<and> fst (M2DeleteFile (scripted_kernel\<lparr>SetFileBasicInfo :=
           \<lambda>h info w. (1, snd (SetFileBasicInfo scripted_kernel h info w))\<rparr>)
         [0x41] True (scripted_run [44, 33, 0, 0, 0])) = 0x80070005
   \<and> fst (M2DeleteFile scripted_kernel [0x41] True (scripted_run [44, 33, 0, 1])) = S_OK"
  using
    M2DeleteFile_result_is_primary_outcome [of scripted_kernel "[0x41]" True
      "\<lparr>script = [44, 33, 0, 0, 0], last_error = 0\<rparr>"
      "fst (M2DeleteFile scripted_kernel [0x41] True (scripted_run [44, 33, 0, 0, 0]))"
      "snd (M2DeleteFile scripted_kernel [0x41] True (scripted_run [44, 33, 0, 0, 0]))"]
    M2DeleteFile_result_is_primary_outcome [of scripted_kernel "[0x41]" True
      "\<lparr>script = [44, 33, 0, 1], last_error = 0\<rparr>"
      "fst (M2DeleteFile scripted_kernel [0x41] True (scripted_run [44, 33, 0, 1]))"
      "snd (M2DeleteFile scripted_kernel [0x41] True (scripted_run [44, 33, 0, 1]))"]
  by (simp add: run_defs scripted_defs const_defs M2DeleteFile_open_def M2SetFileAttributes_write_def)

text \<open>
  Claim C4. If the open of \<open>M2DeleteFile\<close> fails, the function stops there: the trace
  is the open, the reading of the error code and the closing call, with no attribute
  read, no attribute write and no disposition call, and the result is the code that
  \<open>M2GetLastError\<close> yields in the state the failed open left.
\<close>

theorem M2DeleteFile_open_failure_aborts:
  assumes "M2DeleteFile_open k lpFileName w = (INVALID_HANDLE_VALUE, w1)"
    and "M2DeleteFile k lpFileName bForce (init w) = (hr, s')"
  shows "hr = M2GetLastError k w1
       \<and> trace s' =
           [Ev_CreateFileW lpFileName
              (SYNCHRONIZE OR DELETE OR FILE_READ_ATTRIBUTES OR FILE_WRITE_ATTRIBUTES)
              (FILE_SHARE_READ OR FILE_SHARE_WRITE OR FILE_SHARE_DELETE)
              OPEN_EXISTING
              (FILE_FLAG_BACKUP_SEMANTICS OR FILE_FLAG_OPEN_REPARSE_POINT)
              INVALID_HANDLE_VALUE,
            Ev_M2GetLastError hr,
            Ev_CloseHandle INVALID_HANDLE_VALUE]
       \<and> filter is_attribute_read (trace s') = []
       \<and> filter is_attribute_write (trace s') = []
       \<and> filter is_disposition (trace s') = []"
  using assms(2) unfolding M2DeleteFile_open_failed [OF assms(1)] by auto

theorem M2DeleteFile_open_failure_aborts_witness:
  "M2DeleteFile_open scripted_kernel [0x41] \<lparr>script = [0], last_error = 0\<rparr> =
     (INVALID_HANDLE_VALUE, \<lparr>script = [], last_error = 5\<rparr>)
   \<and> fst (M2DeleteFile scripted_kernel [0x41] True (scripted_run [0])) = 0x80070005
   \<and> length (trace (snd (M2DeleteFile scripted_kernel [0x41] True (scripted_run [0])))) = 3
   \<and> filter is_disposition (trace (snd (M2DeleteFile scripted_kernel [0x41] True (scripted_run [0])))) = []"
proof -
  have o: "M2DeleteFile_open scripted_kernel [0x41] \<lparr>script = [0], last_error = 0\<rparr> =
     (INVALID_HANDLE_VALUE, \<lparr>script = [], last_error = 5\<rparr>)"
    by (simp add: M2DeleteFile_open_def scripted_defs)
  have r: "M2DeleteFile scripted_kernel [0x41] True (init \<lparr>script = [0], last_error = 0\<rparr>) =
     (fst (M2DeleteFile scripted_kernel [0x41] True (scripted_run [0])),
      snd (M2DeleteFile scripted_kernel [0x41] True (scripted_run [0])))"
    by (simp add: scripted_run_def)
  have e: "M2GetLastError scripted_kernel \<lparr>script = [], last_error = 5\<rparr> = 0x80070005"
    by (simp add: scripted_defs HRESULT_FROM_WIN32_def FACILITY_WIN32_def)
  from M2DeleteFile_open_failure_aborts [OF o r] o e show ?thesis by simp
qed

text \<open>
  Claim C5. With the force flag false, \<open>M2DeleteFile\<close> reads and writes no
  attributes: the trace has no attribute read and no attribute write, whether the
  deletion succeeds or fails, and the final system state is the one that the open, the
  disposition call and the closing call produce.
\<close>

theorem M2DeleteFile_without_force_leaves_attributes:
  assumes "M2DeleteFile k lpFileName False (init w) = (hr, s')"
  shows "filter is_attribute_read (trace s') = []
       \<and> filter is_attribute_write (trace s') = []
       \<and> world s' =
           (let (h, w1) = M2DeleteFile_open k lpFileName w
            in snd (CloseHandle k h
                 (if h = INVALID_HANDLE_VALUE then w1
                  else snd (SetFileDispositionInfo k h \<lparr>DeleteFile = TRUE\<rparr> w1))))"
proof (cases rule: M2DeleteFile_cases [where k = k and name = lpFileName and w = w and force = False])
  case (open_failed w1)
  from assms [unfolded M2DeleteFile_open_failed [OF open_failed]] open_failed
  show ?thesis by auto
next
  case (plain h w1 r w2)
  from assms [unfolded M2DeleteFile_plain [OF plain(2-4)]] plain(2-4)
  show ?thesis by auto
next
  case (forced h w1 gr info wa old sr wb r w2 hr' rr w3)
  then show ?thesis by simp
qed

theorem M2DeleteFile_without_force_leaves_attributes_witness:
  "filter is_attribute_read (trace (snd (M2DeleteFile scripted_kernel [0x41] False (scripted_run [44, 0])))) = []
   \<and> filter is_attribute_write (trace (snd (M2DeleteFile scripted_kernel [0x41] False (scripted_run [44, 0])))) = []
   \<and> fst (M2DeleteFile scripted_kernel [0x41] False (scripted_run [44, 0])) = 0x80070005
   \<and> world (snd (M2DeleteFile scripted_kernel [0x41] False (scripted_run [44, 0]))) = \<lparr>script = [], last_error = 5\<rparr>"
  using M2DeleteFile_without_force_leaves_attributes [of scripted_kernel "[0x41]"
      "\<lparr>script = [44, 0], last_error = 0\<rparr>"
      "fst (M2DeleteFile scripted_kernel [0x41] False (scripted_run [44, 0]))"
      "snd (M2DeleteFile scripted_kernel [0x41] False (scripted_run [44, 0]))"]
  by (simp add: run_defs scripted_defs const_defs M2DeleteFile_open_def)

lemma M2DeleteFile_final_state:
  "world (snd (M2DeleteFile k lpFileName bForce (init w))) =
     (let (h, w1) = M2DeleteFile_open k lpFileName w;
          old = fst (M2GetFileAttributes k h (init w1));
          wd = (if bForce
                then snd (M2SetFileAttributes_write k h (remove_readonly old)
                       (snd (GetFileBasicInfo k h w1)))
                else w1);
          w2 = snd (SetFileDispositionInfo k h \<lparr>DeleteFile = TRUE\<rparr> wd)
      in snd (CloseHandle k h
           (if h = INVALID_HANDLE_VALUE then w1
            else if bForce \<and> FAILED (fst (M2DeleteFile k lpFileName bForce (init w)))
            then snd (M2SetFileAttributes_write k h old w2)
            else w2)))"
proof (cases rule: M2DeleteFile_cases [where k = k and name = lpFileName and w = w and force = bForce])
  case (open_failed w1)
  then show ?thesis by (simp add: M2DeleteFile_open_failed [OF open_failed])
next
  case (plain h w1 r w2)
  then show ?thesis by (simp add: M2DeleteFile_plain [OF plain(2-4)])
next
  case (forced h w1 gr info wa old sr wb r w2 hr' rr w3)
  from forced(4,5) have "fst (M2GetFileAttributes k h (init w1)) = old"
    by (simp add: M2GetFileAttributes_result)
  with forced(1-4,6,7,9) show ?thesis by (simp add: M2DeleteFile_forced [OF forced(2-9)])
qed

text \<open>
  Claim C9. Every run of \<open>M2DeleteFile\<close> calls \<open>CloseHandle\<close> exactly once, on the
  value that the open returned, and this call is the last of the run: the trace has one
  closing event, at its end, and the final system state is the state that
  \<open>CloseHandle\<close> returns when applied, with that value, to the state the earlier calls
  left.
\<close>

theorem M2DeleteFile_closes_handle_once:
  assumes "M2DeleteFile k lpFileName bForce (init w) = (hr, s')"
  shows "filter is_close (trace s') = [Ev_CloseHandle (fst (M2DeleteFile_open k lpFileName w))]
       \<and> last (trace s') = Ev_CloseHandle (fst (M2DeleteFile_open k lpFileName w))
       \<and> world s' =
           (let (h, w1) = M2DeleteFile_open k lpFileName w;
                old = fst (M2GetFileAttributes k h (init w1));
                wd = (if bForce
                      then snd (M2SetFileAttributes_write k h (remove_readonly old)
                             (snd (GetFileBasicInfo k h w1)))
                      else w1);
                w2 = snd (SetFileDispositionInfo k h \<lparr>DeleteFile = TRUE\<rparr> wd)
            in snd (CloseHandle k h
                 (if h = INVALID_HANDLE_VALUE then w1
                  else if bForce \<and> FAILED hr then snd (M2SetFileAttributes_write k h old w2)
                  else w2)))"
proof -
  have w: "world s' =
           (let (h, w1) = M2DeleteFile_open k lpFileName w;
                old = fst (M2GetFileAttributes k h (init w1));
                wd = (if bForce
                      then snd (M2SetFileAttributes_write k h (remove_readonly old)
                             (snd (GetFileBasicInfo k h w1)))
                      else w1);
                w2 = snd (SetFileDispositionInfo k h \<lparr>DeleteFile = TRUE\<rparr> wd)
            in snd (CloseHandle k h
                 (if h = INVALID_HANDLE_VALUE then w1
                  else if bForce \<and> FAILED hr then snd (M2SetFileAttributes_write k h old w2)
                  else w2)))"
    using M2DeleteFile_final_state [of k lpFileName bForce w] unfolding assms
    by (simp add: split_beta Let_def)
  have "filter is_close (trace s') = [Ev_CloseHandle (fst (M2DeleteFile_open k lpFileName w))]
       \<and> last (trace s') = Ev_CloseHandle (fst (M2DeleteFile_open k lpFileName w))"
  proof (cases rule: M2DeleteFile_cases [where k = k and name = lpFileName and w = w and force = bForce])
    case (open_failed w1)
    from assms [unfolded M2DeleteFile_open_failed [OF open_failed]] open_failed
    show ?thesis by auto
  next
    case (plain h w1 r w2)
    from plain(1) assms have "M2DeleteFile k lpFileName False (init w) = (hr, s')"
      by simp
    from this [unfolded M2DeleteFile_plain [OF plain(2-4)]] plain(2)
    show ?thesis by auto
  next
    case (forced h w1 gr info wa old sr wb r w2 hr' rr w3)
    from forced(1) assms have "M2DeleteFile k lpFileName True (init w) = (hr, s')"
      by simp
    from this [unfolded M2DeleteFile_forced [OF forced(2-9)]] forced(2)
    show ?thesis by auto
  qed
  with w show ?thesis by blast
qed

theorem M2DeleteFile_closes_handle_once_witness:
  "filter is_close (trace (snd (M2DeleteFile scripted_kernel [0x41] True (scripted_run [44, 33, 1, 0, 1])))) = [Ev_CloseHandle 44]
   \<and> last (trace (snd (M2DeleteFile scripted_kernel [0x41] True (scripted_run [44, 33, 1, 0, 1])))) = Ev_CloseHandle 44
   \<and> filter is_close (trace (snd (M2DeleteFile scripted_kernel [0x41] False (scripted_run [0])))) = [Ev_CloseHandle INVALID_HANDLE_VALUE]
   \<and> world (snd (M2DeleteFile (scripted_kernel\<lparr>CloseHandle := \<lambda>h w. (1, w\<lparr>last_error := 77\<rparr>)\<rparr>)
        [0x41] True (scripted_run [44, 33, 1, 0, 1]))) = \<lparr>script = [], last_error = 77\<rparr>"
  using
    M2DeleteFile_closes_handle_once [of scripted_kernel "[0x41]" True
      "\<lparr>script = [44, 33, 1, 0, 1], last_error = 0\<rparr>"
      "fst (M2DeleteFile scripted_kernel [0x41] True (scripted_run [44, 33, 1, 0, 1]))"
      "snd (M2DeleteFile scripted_kernel [0x41] True (scripted_run [44, 33, 1, 0, 1]))"]
    M2DeleteFile_closes_handle_once [of scripted_kernel "[0x41]" False
      "\<lparr>script = [0], last_error = 0\<rparr>"
      "fst (M2DeleteFile scripted_kernel [0x41] False (scripted_run [0]))"
      "snd (M2DeleteFile scripted_kernel [0x41] False (scripted_run [0]))"]
    M2DeleteFile_closes_handle_once [of "scripted_kernel\<lparr>CloseHandle := \<lambda>h w. (1, w\<lparr>last_error := 77\<rparr>)\<rparr>"
      "[0x41]" True
      "\<lparr>script = [44, 33, 1, 0, 1], last_error = 0\<rparr>"
      "fst (M2DeleteFile (scripted_kernel\<lparr>CloseHandle := \<lambda>h w. (1, w\<lparr>last_error := 77\<rparr>)\<rparr>) [0x41] True (scripted_run [44, 33, 1, 0, 1]))"
      "snd (M2DeleteFile (scripted_kernel\<lparr>CloseHandle := \<lambda>h w. (1, w\<lparr>last_error := 77\<rparr>)\<rparr>) [0x41] True (scripted_run [44, 33, 1, 0, 1]))"]
  by (simp add: run_defs scripted_defs const_defs M2DeleteFile_open_def
      M2SetFileAttributes_write_def M2SetFileAttributes_info_def)





section \<open>M2SetFileAttributes\<close>







section \<open>M2GetFileAllocationSize and M2GetFileSize\<close>

lemma M2GetFileSize_Cleanup_run:
  "M2GetFileSize_Cleanup k h hr out s =
     ((hr, out), \<lparr>world = snd (CloseHandle k h (world s)), trace = trace s @ [Ev_CloseHandle h]\<rparr>)"
  by (simp add: M2GetFileSize_Cleanup_def call_defs Let_def split_beta log_def)

lemma M2GetFileAllocationSize_run:
  assumes "M2GetFileSize_open k lpFileName w = (h, w1)"
    and "GetFileStandardInfo k h w1 = ((r, info), w2)"
  shows "fst (M2GetFileAllocationSize k lpFileName (init w)) =
           (if h = INVALID_HANDLE_VALUE then (M2GetLastError k w1, 0)
            else if r = 0 then (M2GetLastError k w2, 0)
            else (S_OK, AllocationSize info))"
  using assms
  by (simp add: M2GetFileAllocationSize_def M2GetFileSize_open_def M2GetFileSize_Cleanup_run
      call_defs Let_def log_def init_def)

lemma M2GetFileSize_run:
  assumes "M2GetFileSize_open k lpFileName w = (h, w1)"
    and "GetFileStandardInfo k h w1 = ((r, info), w2)"
  shows "fst (M2GetFileSize k lpFileName (init w)) =
           (if h = INVALID_HANDLE_VALUE then (M2GetLastError k w1, 0)
            else if r = 0 then (M2GetLastError k w2, 0)
            else (S_OK, EndOfFile info))"
  using assms
  by (simp add: M2GetFileSize_def M2GetFileSize_open_def M2GetFileSize_Cleanup_run
      call_defs Let_def log_def init_def)

text \<open>
  Claim C8. In every failing run of \<open>M2GetFileAllocationSize\<close> and of \<open>M2GetFileSize\<close>,
  whether the open fails or the information query fails, the out-value is zero on
  return; it holds the queried size (the allocation size, the end of file) only when both
  calls succeed, and then the result is \<open>S_OK\<close>.
\<close>

theorem size_queries_zero_on_failure:
  assumes "M2GetFileSize_open k lpFileName w = (h, w1)"
    and "GetFileStandardInfo k h w1 = ((r, info), w2)"
    and "M2GetFileAllocationSize k lpFileName (init w) = ((hr_a, out_a), s_a)"
    and "M2GetFileSize k lpFileName (init w) = ((hr_s, out_s), s_s)"
  shows "(h = INVALID_HANDLE_VALUE \<longrightarrow>
            (hr_a, out_a) = (M2GetLastError k w1, 0) \<and> (hr_s, out_s) = (M2GetLastError k w1, 0))
       \<and> (h \<noteq> INVALID_HANDLE_VALUE \<and> r = 0 \<longrightarrow>
            (hr_a, out_a) = (M2GetLastError k w2, 0) \<and> (hr_s, out_s) = (M2GetLastError k w2, 0))
       \<and> (h \<noteq> INVALID_HANDLE_VALUE \<and> r \<noteq> 0 \<longrightarrow>
            (hr_a, out_a) = (S_OK, AllocationSize info) \<and> (hr_s, out_s) = (S_OK, EndOfFile info))
       \<and> (FAILED hr_a \<longrightarrow> out_a = 0) \<and> (FAILED hr_s \<longrightarrow> out_s = 0)
       \<and> (out_a \<noteq> 0 \<longrightarrow> hr_a = S_OK) \<and> (out_s \<noteq> 0 \<longrightarrow> hr_s = S_OK)"
  using M2GetFileAllocationSize_run [OF assms(1,2)] M2GetFileSize_run [OF assms(1,2)] assms(3,4)
  by (auto split: if_splits)

theorem size_queries_zero_on_failure_witness:
  "fst (M2GetFileAllocationSize scripted_kernel [0x41] (scripted_run [0])) = (0x80070005, 0)
   \<and> fst (M2GetFileSize scripted_kernel [0x41] (scripted_run [0])) = (0x80070005, 0)
   \<and> fst (M2GetFileAllocationSize scripted_kernel [0x41] (scripted_run [44, 0])) = (0x80070005, 0)
   \<and> fst (M2GetFileSize scripted_kernel [0x41] (scripted_run [44, 0])) = (0x80070005, 0)
   \<and> fst (M2GetFileAllocationSize scripted_kernel [0x41] (scripted_run [44, 10])) = (S_OK, 20)
   \<and> fst (M2GetFileSize scripted_kernel [0x41] (scripted_run [44, 10])) = (S_OK, 10)"
proof -
  have e: "M2GetLastError scripted_kernel \<lparr>script = [], last_error = 5\<rparr> = 0x80070005"
    by (simp add: scripted_defs HRESULT_FROM_WIN32_def FACILITY_WIN32_def)
  have o1: "M2GetFileSize_open scripted_kernel [0x41] \<lparr>script = [0], last_error = 0\<rparr> =
     (INVALID_HANDLE_VALUE, \<lparr>script = [], last_error = 5\<rparr>)"
    by (simp add: M2GetFileSize_open_def scripted_defs)
  have q1: "GetFileStandardInfo scripted_kernel INVALID_HANDLE_VALUE \<lparr>script = [], last_error = 5\<rparr> =
     ((0, \<lparr>AllocationSize = 0, EndOfFile = 0, NumberOfLinks = 1, DeletePending = False,
           Directory = False\<rparr>), \<lparr>script = [], last_error = 5\<rparr>)"
    by (simp add: scripted_defs)
  have o2: "M2GetFileSize_open scripted_kernel [0x41] \<lparr>script = [44, 0], last_error = 0\<rparr> =
     (44, \<lparr>script = [0], last_error = 0\<rparr>)"
    by (simp add: M2GetFileSize_open_def scripted_defs)
  have q2: "GetFileStandardInfo scripted_kernel 44 \<lparr>script = [0], last_error = 0\<rparr> =
     ((0, \<lparr>AllocationSize = 0, EndOfFile = 0, NumberOfLinks = 1, DeletePending = False,
           Directory = False\<rparr>), \<lparr>script = [], last_error = 5\<rparr>)"
    by (simp add: scripted_defs)
  have o3: "M2GetFileSize_open scripted_kernel [0x41] \<lparr>script = [44, 10], last_error = 0\<rparr> =
     (44, \<lparr>script = [10], last_error = 0\<rparr>)"
    by (simp add: M2GetFileSize_open_def scripted_defs)
  have q3: "GetFileStandardInfo scripted_kernel 44 \<lparr>script = [10], last_error = 0\<rparr> =
     ((1, \<lparr>AllocationSize = 20, EndOfFile = 10, NumberOfLinks = 1, DeletePending = False,
           Directory = False\<rparr>), \<lparr>script = [], last_error = 0\<rparr>)"
    by (simp add: scripted_defs)
  have v: "(44 :: HANDLE) \<noteq> INVALID_HANDLE_VALUE"
    by (simp add: INVALID_HANDLE_VALUE_def)
  have p: "x = ((fst (fst x), snd (fst x)), snd x)" for x :: "(HRESULT \<times> ULONGLONG) \<times> scripted os_state"
    by simp
  from size_queries_zero_on_failure [OF o1 q1 p [of "M2GetFileAllocationSize scripted_kernel [0x41] (init \<lparr>script = [0], last_error = 0\<rparr>)"]
         p [of "M2GetFileSize scripted_kernel [0x41] (init \<lparr>script = [0], last_error = 0\<rparr>)"]]
       size_queries_zero_on_failure [OF o2 q2 p [of "M2GetFileAllocationSize scripted_kernel [0x41] (init \<lparr>script = [44, 0], last_error = 0\<rparr>)"]
         p [of "M2GetFileSize scripted_kernel [0x41] (init \<lparr>script = [44, 0], last_error = 0\<rparr>)"]]
       size_queries_zero_on_failure [OF o3 q3 p [of "M2GetFileAllocationSize scripted_kernel [0x41] (init \<lparr>script = [44, 10], last_error = 0\<rparr>)"]
         p [of "M2GetFileSize scripted_kernel [0x41] (init \<lparr>script = [44, 10], last_error = 0\<rparr>)"]]
       e v
  show ?thesis
    by (simp add: scripted_run_def prod_eq_iff)
qed

section \<open>M2GetWindowsDirectory\<close>

lemma length_resize_wstring [simp]: "length (resize_wstring n str) = n"
  by (simp add: resize_wstring_def)

lemma length_write_buffer [simp]: "length (write_buffer written str) = length str"
  by (simp add: write_buffer_def)


lemma E_UNEXPECTED_FAILED [simp]: "FAILED E_UNEXPECTED"
  by (simp add: FAILED_def E_UNEXPECTED_def)





section \<open>M2LoadResource\<close>









end
